theory Spec2Isabelle
  imports Main
begin

section \<open>Values of the Python runtime and of the store\<close>

text \<open>
  The \<open>created\<close> column of table \<open>sessions\<close> is declared \<open>TIMESTAMP\<close>; the
  SQLite driver hands its content back as a Python \<open>str\<close> (text storage) or as a Python
  \<open>int\<close> (integer storage). Both are kept apart, since the handlers call string
  methods on the value.
\<close>

datatype sqlval = SText string | SInt int

text \<open>
  A \<open>datetime\<close> is naive (wall-clock time) or aware (with an offset). The payload of a
  naive value is the number of microseconds of wall-clock time since 1970-01-01T00:00:00,
  that of an aware value the number of microseconds since the epoch. The quotients of
  \<open>total_seconds()\<close> are computed exactly.
\<close>

datatype pydt = Naive int | Aware int

datatype py_exc = ValueError | AttributeError | TypeError | OverflowError

text \<open>
  The functions of the Python library that the handlers call are parameters of the model:
  \<open>fromisoformat\<close> is \<open>datetime.fromisoformat\<close> (\<open>None\<close> when it raises
  \<open>ValueError\<close>), \<open>int_of_str\<close> is \<open>int\<close> on a \<open>str\<close> (\<open>None\<close> when it raises
  \<open>ValueError\<close>), \<open>timestamp\<close> is \<open>int(dt.timestamp())\<close> and \<open>fromtimestamp\<close> is
  \<open>datetime.fromtimestamp\<close>; the last two return the exception they raise on a value
  outside the range of the platform.
\<close>

record pylib =
  fromisoformat :: "string \<Rightarrow> pydt option"
  int_of_str :: "string \<Rightarrow> int option"
  timestamp :: "pydt \<Rightarrow> py_exc + int"
  fromtimestamp :: "int \<Rightarrow> py_exc + pydt"

record session_row =
  user_id :: string
  container_name :: string
  image_col :: string
  password :: string
  created :: sqlval
  ttl :: int

type_synonym db = "session_row list"

text \<open>
  An \<open>INTEGER\<close> of SQLite is a signed 64-bit value: binding a Python \<open>int\<close>
  outside that range to a statement raises \<open>OverflowError\<close>, and the statement is not
  executed.
\<close>

definition sqlite_int :: "int \<Rightarrow> bool" where
  "sqlite_int n \<longleftrightarrow> - 9223372036854775808 \<le> n \<and> n \<le> 9223372036854775807"

text \<open>The primary key of the table is the pair \<open>(user_id, container_name)\<close>.\<close>

definition row_key :: "session_row \<Rightarrow> string \<times> string" where
  "row_key r = (user_id r, container_name r)"

definition primary_key :: "db \<Rightarrow> bool" where
  "primary_key d \<longleftrightarrow> distinct (map row_key d)"

definition where_key :: "string \<Rightarrow> string \<Rightarrow> session_row \<Rightarrow> bool" where
  "where_key u n r \<longleftrightarrow> user_id r = u \<and> container_name r = n"

text \<open>\<open>UPDATE sessions SET ttl=? WHERE user_id=? AND container_name=?\<close>\<close>

definition update_ttl :: "int \<Rightarrow> string \<Rightarrow> string \<Rightarrow> db \<Rightarrow> db" where
  "update_ttl t u n d = map (\<lambda>r. if where_key u n r then r\<lparr>ttl := t\<rparr> else r) d"

text \<open>\<open>INSERT OR REPLACE\<close>: a row with the same key is removed, the new row is added.\<close>

definition insert_or_replace :: "session_row \<Rightarrow> db \<Rightarrow> db" where
  "insert_or_replace r d = filter (\<lambda>x. row_key x \<noteq> row_key r) d @ [r]"

section \<open>The container runtime\<close>

text \<open>
  The Docker client: the names of the existing containers, and which calls the daemon
  refuses. A container is started with \<open>remove=True\<close>, so a stopped container is gone.
\<close>

record docker =
  running :: "string list"
  pull_fails :: "string \<Rightarrow> bool"
  run_fails :: "string \<Rightarrow> bool"
  stop_fails :: "string \<Rightarrow> bool"
  exec_fails :: "string \<Rightarrow> bool"

datatype event =
    DbSelect | DbInsert | DbUpdate | DbDelete
  | ImagePull string | ContainerRun string | ContainerExec string
  | ContainerGet string | ContainerStop string

fun store_event :: "event \<Rightarrow> bool" where
  "store_event DbSelect = True"
| "store_event DbInsert = True"
| "store_event DbUpdate = True"
| "store_event DbDelete = True"
| "store_event _ = False"

definition runtime_event :: "event \<Rightarrow> bool" where
  "runtime_event e \<longleftrightarrow> \<not> store_event e"

text \<open>
  \<open>try: container = client.containers.get(name); container.stop() except: pass\<close>,
  as in \<open>cleanup_old_containers\<close> and \<open>api_stop\<close>.
\<close>

definition try_stop :: "docker \<Rightarrow> string \<Rightarrow> docker \<times> event list" where
  "try_stop D name =
     (if name \<in> set (running D) then
        (if stop_fails D name then (D, [ContainerGet name, ContainerStop name])
         else (D\<lparr>running := removeAll name (running D)\<rparr>,
               [ContainerGet name, ContainerStop name]))
      else (D, [ContainerGet name]))"

section \<open>Requests and responses\<close>

datatype http_method = GET | POST | OPTIONS

text \<open>
  A query argument that the handler passes to \<open>int\<close>: absent, a text that \<open>int\<close>
  reads as the given number, or a text on which \<open>int\<close> raises \<open>ValueError\<close>.
\<close>

datatype qparam = Absent | Literal int | Malformed

record request =
  http_method :: http_method
  hdr_lower :: "string option"
  hdr_upper :: "string option"
  session_user_id :: "string option"
  arg_ttl :: qparam
  json_infinite :: "bool option"

record env =
  env_domain :: string
  gitea_registry :: string

text \<open>The random and clock inputs of one provisioning request.\<close>

record fresh =
  new_password :: string
  uuid_hex8 :: string
  now_isoformat :: string

datatype failure = PullFailure string | RunFailure

record entry =
  e_name :: string
  e_image :: string
  e_password :: string
  e_time_left :: "(int \<times> int) option"
  e_infinite :: bool
  e_uptime :: "int \<times> int"
  e_url :: string
  e_expires_at :: "pydt option"

datatype response =
    Unauthorized
  | NotFound
  | Failed failure
  | Raised py_exc
  | NoContent
  | Started string string string int string
  | Listed "entry list"
  | Stopped
  | Toggled string
  | AlreadyInfinite
  | Extended int int int

text \<open>Python's \<open>a or b\<close> on values that are \<open>None\<close> or a \<open>str\<close>.\<close>

definition py_or :: "string option \<Rightarrow> string option \<Rightarrow> string option" where
  "py_or a b = (case a of None \<Rightarrow> b | Some s \<Rightarrow> if s = [] then b else a)"

definition get_user_id :: "request \<Rightarrow> string" where
  "get_user_id req =
     (case py_or (py_or (py_or (hdr_lower req) (hdr_upper req)) (session_user_id req))
             (Some ''anonymous'') of
        Some s \<Rightarrow> s
      | None \<Rightarrow> ''anonymous'')"

definition not_authorized :: "string \<Rightarrow> bool" where
  "not_authorized u \<longleftrightarrow> u = [] \<or> u = ''anonymous''"

section \<open>Reading the creation time\<close>

text \<open>\<open>s.replace('Z', '+00:00')\<close>\<close>

definition replace_Z :: "string \<Rightarrow> string" where
  "replace_Z s = concat (map (\<lambda>c. if c = CHR ''Z'' then ''+00:00'' else [c]) s)"

text \<open>
  The conversion of \<open>cleanup_old_containers\<close> and \<open>extend_session\<close>:
  \<open>try: int(datetime.fromisoformat(s.replace('Z', '+00:00')).timestamp())
    except ValueError: int(s)\<close>.
  An \<open>int\<close> has no method \<open>replace\<close>: the call raises \<open>AttributeError\<close>, which the
  handler does not catch. A \<open>ValueError\<close> of either call in the \<open>try\<close> block leads
  to \<open>int(s)\<close>; any other exception leaves the handler.
\<close>

definition int_fallback :: "pylib \<Rightarrow> string \<Rightarrow> py_exc + int" where
  "int_fallback L s = (case int_of_str L s of Some n \<Rightarrow> Inr n | None \<Rightarrow> Inl ValueError)"

definition created_to_ts :: "pylib \<Rightarrow> sqlval \<Rightarrow> py_exc + int" where
  "created_to_ts L v =
     (case v of
        SInt n \<Rightarrow> Inl AttributeError
      | SText s \<Rightarrow>
          (case fromisoformat L (replace_Z s) of
             Some dt \<Rightarrow>
               (case timestamp L dt of
                  Inr t \<Rightarrow> Inr t
                | Inl e \<Rightarrow> if e = ValueError then int_fallback L s else Inl e)
           | None \<Rightarrow> int_fallback L s))"

text \<open>
  The conversion of \<open>api_list\<close> and \<open>format_uptime\<close>:
  \<open>try: datetime.fromisoformat(s) except: datetime.fromtimestamp(int(s))\<close>.
  The bare \<open>except\<close> also catches the \<open>TypeError\<close> that \<open>fromisoformat\<close> raises on
  an \<open>int\<close>.
\<close>

definition created_to_dt :: "pylib \<Rightarrow> sqlval \<Rightarrow> py_exc + pydt" where
  "created_to_dt L v =
     (case v of
        SInt n \<Rightarrow> fromtimestamp L n
      | SText s \<Rightarrow>
          (case fromisoformat L s of
             Some dt \<Rightarrow> Inr dt
           | None \<Rightarrow>
               (case int_of_str L s of
                  Some n \<Rightarrow> fromtimestamp L n
                | None \<Rightarrow> Inl ValueError)))"

section \<open>Extending a session\<close>

text \<open>
  \<open>extend_session\<close>; \<open>now_ts\<close> is \<open>int(time.time())\<close>. The \<open>UPDATE\<close> binds
  \<open>new_ttl\<close> and raises when it is no SQLite integer; nothing is written then.
\<close>

definition extend_session ::
  "pylib \<Rightarrow> int \<Rightarrow> request \<Rightarrow> string \<Rightarrow> db \<Rightarrow> response \<times> db \<times> event list" where
  "extend_session L now_ts req cname d =
     (if http_method req = OPTIONS then (NoContent, d, [])
      else case arg_ttl req of
        Malformed \<Rightarrow> (Raised ValueError, d, [])
      | a \<Rightarrow>
         (let added = (case a of Literal n \<Rightarrow> n | _ \<Rightarrow> 7200);
              uid = get_user_id req
          in case find (where_key uid cname) d of
               None \<Rightarrow> (NotFound, d, [DbSelect])
             | Some row \<Rightarrow>
                 (if ttl row = 0 then (AlreadyInfinite, d, [DbSelect])
                  else case created_to_ts L (created row) of
                         Inl e \<Rightarrow> (Raised e, d, [DbSelect])
                       | Inr old_created \<Rightarrow>
                           (let time_elapsed = now_ts - old_created;
                                time_left = max 0 (ttl row - time_elapsed);
                                new_ttl = time_left + added
                            in if sqlite_int new_ttl
                               then (Extended time_left added new_ttl,
                                     update_ttl new_ttl uid cname d,
                                     [DbSelect, DbUpdate])
                               else (Raised OverflowError, d, [DbSelect])))))"

section \<open>Toggling auto-kill\<close>

text \<open>
  \<open>toggle_autokill\<close> reads the identity from the Flask session alone. A \<open>None\<close>
  bound to \<open>user_id=?\<close> compares with SQL \<open>NULL\<close> and matches no row. An absent
  \<open>infinite\<close> field of the JSON body defaults to \<open>True\<close>.
\<close>

definition update_ttl_as :: "int \<Rightarrow> string option \<Rightarrow> string \<Rightarrow> db \<Rightarrow> db" where
  "update_ttl_as t who n d = (case who of None \<Rightarrow> d | Some u \<Rightarrow> update_ttl t u n d)"

definition toggle_autokill :: "request \<Rightarrow> string \<Rightarrow> db \<Rightarrow> response \<times> db \<times> event list" where
  "toggle_autokill req cname d =
     (let who = session_user_id req;
          is_infinite = (case json_infinite req of None \<Rightarrow> True | Some b \<Rightarrow> b)
      in if is_infinite
         then (Toggled ''infinite'', update_ttl_as 0 who cname d, [DbUpdate])
         else (Toggled ''finite'', update_ttl_as 7200 who cname d, [DbUpdate]))"

section \<open>The expiry sweep\<close>

text \<open>
  The first loop of \<open>cleanup_old_containers\<close> over the selected
  \<open>(container_name, created, ttl)\<close> triples; an exception of the conversion leaves the
  function before anything is stopped or deleted.
\<close>

fun expired_names :: "pylib \<Rightarrow> int \<Rightarrow> (string \<times> sqlval \<times> int) list \<Rightarrow> py_exc + string list" where
  "expired_names L now_ts [] = Inr []"
| "expired_names L now_ts ((name, created_str, t) # rows) =
     (case created_to_ts L created_str of
        Inl e \<Rightarrow> Inl e
      | Inr created_ts \<Rightarrow>
          (case expired_names L now_ts rows of
             Inl e \<Rightarrow> Inl e
           | Inr names \<Rightarrow>
               Inr (if created_ts + t \<le> now_ts then name # names else names)))"

text \<open>\<open>DELETE FROM sessions WHERE container_name=?\<close>\<close>

definition delete_by_name :: "string \<Rightarrow> db \<Rightarrow> db" where
  "delete_by_name name d = filter (\<lambda>r. container_name r \<noteq> name) d"

text \<open>The second loop: stop, ignoring every exception, then delete.\<close>

fun stop_and_delete :: "string list \<Rightarrow> db \<Rightarrow> docker \<Rightarrow> event list \<Rightarrow> db \<times> docker \<times> event list" where
  "stop_and_delete [] d D tr = (d, D, tr)"
| "stop_and_delete (name # names) d D tr =
     (case try_stop D name of
        (D', evs) \<Rightarrow> stop_and_delete names (delete_by_name name d) D' (tr @ evs @ [DbDelete]))"

definition select_finite :: "db \<Rightarrow> (string \<times> sqlval \<times> int) list" where
  "select_finite d = map (\<lambda>r. (container_name r, created r, ttl r)) (filter (\<lambda>r. 0 < ttl r) d)"

definition cleanup_old_containers ::
  "pylib \<Rightarrow> int \<Rightarrow> db \<Rightarrow> docker \<Rightarrow> py_exc + (db \<times> docker \<times> event list)" where
  "cleanup_old_containers L now_ts d D =
     (case expired_names L now_ts (select_finite d) of
        Inl e \<Rightarrow> Inl e
      | Inr names \<Rightarrow> Inr (stop_and_delete names d D [DbSelect]))"

text \<open>
  A finite session is expired when its creation time is readable and
  \<open>created + ttl \<le> now\<close>; the sweep can read the store when it can read the creation
  time of every finite session.
\<close>

definition expired :: "pylib \<Rightarrow> int \<Rightarrow> session_row \<Rightarrow> bool" where
  "expired L now_ts r \<longleftrightarrow>
     0 < ttl r \<and> (case created_to_ts L (created r) of Inl e \<Rightarrow> False | Inr c \<Rightarrow> c + ttl r \<le> now_ts)"

definition sweep_readable :: "pylib \<Rightarrow> db \<Rightarrow> bool" where
  "sweep_readable L d \<longleftrightarrow>
     list_all (\<lambda>r. 0 < ttl r \<longrightarrow> (case created_to_ts L (created r) of Inl e \<Rightarrow> False | Inr c \<Rightarrow> True)) d"

text \<open>The container names on which a trace attempts a stop, in order.\<close>

fun stop_attempts :: "event list \<Rightarrow> string list" where
  "stop_attempts [] = []"
| "stop_attempts (ContainerGet n # es) = n # stop_attempts es"
| "stop_attempts (e # es) = stop_attempts es"

section \<open>Provisioning\<close>

text \<open>\<open>image.replace('/', '-')\<close>\<close>

definition replace_slash :: "string \<Rightarrow> string" where
  "replace_slash s = map (\<lambda>c. if c = CHR ''/'' then CHR ''-'' else c) s"

definition full_image_of :: "env \<Rightarrow> string \<Rightarrow> string" where
  "full_image_of E img = gitea_registry E @ ''/'' @ img @ '':latest''"

definition name_of :: "fresh \<Rightarrow> string \<Rightarrow> string \<Rightarrow> string" where
  "name_of R uid img = ''workspaces-'' @ uid @ ''-'' @ replace_slash img @ ''-'' @ uuid_hex8 R"

text \<open>
  \<open>client.containers.run\<close> raises when the daemon refuses the launch or a container
  of that name exists. The \<open>INSERT\<close> at the end of \<open>api_start\<close> binds the requested
  \<open>ttl\<close> and raises when it is no SQLite integer: the container is running by then, and
  no row is written. A failure of \<open>exec_run\<close> is printed and ignored, so the answer
  does not depend on it.
\<close>

definition launch_fails :: "docker \<Rightarrow> string \<Rightarrow> bool" where
  "launch_fails D name \<longleftrightarrow> run_fails D name \<or> name \<in> set (running D)"

definition api_start ::
  "env \<Rightarrow> fresh \<Rightarrow> request \<Rightarrow> string \<Rightarrow> db \<Rightarrow> docker \<Rightarrow> response \<times> db \<times> docker \<times> event list" where
  "api_start E R req img d D =
     (let uid = get_user_id req in
      if not_authorized uid then (Unauthorized, d, D, [])
      else case arg_ttl req of
        Malformed \<Rightarrow> (Raised ValueError, d, D, [])
      | a \<Rightarrow>
         (let t = (case a of Literal n \<Rightarrow> n | _ \<Rightarrow> 0);
              full_image = full_image_of E img;
              name = name_of R uid img
          in if pull_fails D full_image
             then (Failed (PullFailure full_image), d, D, [ImagePull full_image])
             else if launch_fails D name
             then (Failed RunFailure, d, D, [ImagePull full_image, ContainerRun name])
             else if \<not> sqlite_int t
             then (Raised OverflowError, d, D\<lparr>running := running D @ [name]\<rparr>,
                   [ImagePull full_image, ContainerRun name, ContainerExec name])
             else (Started (''https://'' @ name @ ''.'' @ env_domain E) ''workspaces-user''
                     (new_password R) t name,
                   insert_or_replace
                     \<lparr>user_id = uid, container_name = name, image_col = full_image,
                      password = new_password R, created = SText (now_isoformat R), ttl = t\<rparr> d,
                   D\<lparr>running := running D @ [name]\<rparr>,
                   [ImagePull full_image, ContainerRun name, ContainerExec name, DbInsert])))"

section \<open>Listing and stopping\<close>

text \<open>
  \<open>timedelta(seconds=s)\<close> raises \<open>OverflowError\<close> when the number of days leaves
  the range of \<open>timedelta\<close>; adding to a naive \<open>datetime\<close> raises it when the sum
  leaves the years 1 to 9999.
\<close>

definition timedelta_ok :: "int \<Rightarrow> bool" where
  "timedelta_ok s \<longleftrightarrow> - 999999999 \<le> s div 86400 \<and> s div 86400 \<le> 999999999"

definition datetime_ok :: "int \<Rightarrow> bool" where
  "datetime_ok us \<longleftrightarrow> - 62135596800000000 \<le> us \<and> us \<le> 253402300799999999"

text \<open>
  \<open>int(td.total_seconds() // 3600)\<close> and \<open>int((td.total_seconds() % 3600) // 60)\<close>
  of a \<open>timedelta\<close> of \<open>us\<close> microseconds.
\<close>

definition hours_minutes :: "int \<Rightarrow> int \<times> int" where
  "hours_minutes us = (us div 3600000000, (us mod 3600000000) div 60000000)"

text \<open>
  \<open>format_uptime\<close>; \<open>now\<close> is the naive \<open>datetime.now()\<close>, in microseconds.
  Subtracting an aware \<open>datetime\<close> from it raises \<open>TypeError\<close>.
\<close>

definition format_uptime :: "pylib \<Rightarrow> sqlval \<Rightarrow> int \<Rightarrow> py_exc + (int \<times> int)" where
  "format_uptime L created_str now =
     (case created_to_dt L created_str of
        Inl e \<Rightarrow> Inl e
      | Inr (Aware c) \<Rightarrow> Inl TypeError
      | Inr (Naive c) \<Rightarrow> Inr (hours_minutes (now - c)))"

text \<open>The body of the loop of \<open>api_list\<close> for one row.\<close>

definition list_entry :: "pylib \<Rightarrow> env \<Rightarrow> int \<Rightarrow> session_row \<Rightarrow> py_exc + entry" where
  "list_entry L E now row =
     (if ttl row = 0 then
        (case format_uptime L (created row) now of
           Inl e \<Rightarrow> Inl e
         | Inr up \<Rightarrow>
             Inr \<lparr>e_name = container_name row, e_image = image_col row,
                  e_password = password row, e_time_left = None, e_infinite = True,
                  e_uptime = up,
                  e_url = ''https://'' @ container_name row @ ''.'' @ env_domain E,
                  e_expires_at = None\<rparr>)
      else
        (case created_to_dt L (created row) of
           Inl e \<Rightarrow> Inl e
         | Inr (Aware c) \<Rightarrow> Inl TypeError
         | Inr (Naive c) \<Rightarrow>
            (let uptime = now - c in
             if \<not> timedelta_ok (ttl row) then Inl OverflowError
             else
               (let expires_at = c + ttl row * 1000000 in
                if \<not> datetime_ok expires_at then Inl OverflowError
                else
                  (let time_left = max 0 (expires_at - now);
                       total_seconds = time_left div 1000000
                   in Inr \<lparr>e_name = container_name row, e_image = image_col row,
                          e_password = password row,
                          e_time_left = Some (total_seconds div 3600, (total_seconds mod 3600) div 60),
                          e_infinite = False,
                          e_uptime = hours_minutes uptime,
                          e_url = ''https://'' @ container_name row @ ''.'' @ env_domain E,
                          e_expires_at = Some (Naive expires_at)\<rparr>)))))"

fun list_entries :: "pylib \<Rightarrow> env \<Rightarrow> int \<Rightarrow> session_row list \<Rightarrow> py_exc + entry list" where
  "list_entries L E now [] = Inr []"
| "list_entries L E now (row # rows) =
     (case list_entry L E now row of
        Inl e \<Rightarrow> Inl e
      | Inr x \<Rightarrow> (case list_entries L E now rows of
                    Inl e \<Rightarrow> Inl e
                  | Inr xs \<Rightarrow> Inr (x # xs)))"

definition api_list :: "pylib \<Rightarrow> env \<Rightarrow> int \<Rightarrow> request \<Rightarrow> db \<Rightarrow> response \<times> event list" where
  "api_list L E now req d =
     (let uid = get_user_id req in
      if not_authorized uid then (Unauthorized, [])
      else case list_entries L E now (filter (\<lambda>r. user_id r = uid) d) of
             Inl e \<Rightarrow> (Raised e, [DbSelect])
           | Inr containers \<Rightarrow> (Listed containers, [DbSelect]))"

text \<open>\<open>DELETE FROM sessions WHERE user_id=? AND container_name=?\<close>\<close>

definition delete_by_key :: "string \<Rightarrow> string \<Rightarrow> db \<Rightarrow> db" where
  "delete_by_key u n d = filter (\<lambda>r. \<not> where_key u n r) d"

definition api_stop ::
  "request \<Rightarrow> string \<Rightarrow> db \<Rightarrow> docker \<Rightarrow> response \<times> db \<times> docker \<times> event list" where
  "api_stop req cname d D =
     (let uid = get_user_id req in
      if not_authorized uid then (Unauthorized, d, D, [])
      else case find (where_key uid cname) d of
             None \<Rightarrow> (NotFound, d, D, [DbSelect])
           | Some row \<Rightarrow>
               (case try_stop D cname of
                  (D', evs) \<Rightarrow>
                    (Stopped, delete_by_key uid cname d, D', [DbSelect] @ evs @ [DbDelete])))"

section \<open>Invariants and example data\<close>

definition ttl_nonneg :: "db \<Rightarrow> bool" where
  "ttl_nonneg d \<longleftrightarrow> list_all (\<lambda>r. 0 \<le> ttl r) d"

text \<open>A requested number of seconds that is absent or not negative.\<close>

definition nonneg_arg :: "qparam \<Rightarrow> bool" where
  "nonneg_arg a = (case a of Literal n \<Rightarrow> 0 \<le> n | _ \<Rightarrow> True)"

text \<open>What an entry of the listing shows of a stored row.\<close>

definition entry_of_row :: "env \<Rightarrow> entry \<Rightarrow> session_row \<Rightarrow> bool" where
  "entry_of_row E e r \<longleftrightarrow>
     e_name e = container_name r \<and> e_image e = image_col r \<and> e_password e = password r
     \<and> e_url e = ''https://'' @ container_name r @ ''.'' @ env_domain E
     \<and> e_infinite e = (ttl r = 0)"

text \<open>
  A library instance for worked examples: it reads one ISO text, the first second of
  2024 in UTC, and decimal texts of the two epoch values used below.
\<close>

definition demo_lib :: pylib where
  "demo_lib =
     \<lparr>fromisoformat = (\<lambda>s. if s = ''2024-01-01T00:00:00'' then Some (Naive 1704067200000000)
                            else None),
      int_of_str = (\<lambda>s. if s = ''1704067200'' then Some 1704067200 else None),
      timestamp = (\<lambda>dt. case dt of Naive us \<Rightarrow> Inr (us div 1000000)
                                | Aware us \<Rightarrow> Inr (us div 1000000)),
      fromtimestamp = (\<lambda>n. Inr (Naive (n * 1000000)))\<rparr>"

definition demo_env :: env where
  "demo_env = \<lparr>env_domain = ''workspaces.domain.local'', gitea_registry = ''gitea.domain.local:3002''\<rparr>"

definition demo_docker :: "string list \<Rightarrow> string list \<Rightarrow> docker" where
  "demo_docker names bad =
     \<lparr>running = names, pull_fails = (\<lambda>i. False), run_fails = (\<lambda>n. False),
      stop_fails = (\<lambda>n. n \<in> set bad), exec_fails = (\<lambda>n. False)\<rparr>"

definition mk_row :: "string \<Rightarrow> string \<Rightarrow> sqlval \<Rightarrow> int \<Rightarrow> session_row" where
  "mk_row u n c t =
     \<lparr>user_id = u, container_name = n, image_col = ''gitea.domain.local:3002/brave:latest'',
      password = ''pw'', created = c, ttl = t\<rparr>"

definition mk_request ::
  "http_method \<Rightarrow> string option \<Rightarrow> string option \<Rightarrow> qparam \<Rightarrow> bool option \<Rightarrow> request" where
  "mk_request m hdr sess a flag =
     \<lparr>http_method = m, hdr_lower = hdr, hdr_upper = None, session_user_id = sess,
      arg_ttl = a, json_infinite = flag\<rparr>"

section \<open>Properties\<close>

lemma find_where_key:
  assumes "primary_key d" and "r \<in> set d" and "where_key u n r"
  shows "find (where_key u n) d = Some r"
  using assms
proof (induction d)
  case Nil
  then show ?case by simp
next
  case (Cons x xs)
  show ?case
  proof (cases "x = r")
    case True
    with Cons.prems show ?thesis by simp
  next
    case False
    with Cons.prems have mem: "r \<in> set xs" by simp
    from Cons.prems have "row_key x \<notin> row_key ` set xs"
      by (simp add: primary_key_def)
    with mem have "row_key x \<noteq> row_key r" by force
    with Cons.prems have "\<not> where_key u n x"
      by (auto simp: where_key_def row_key_def)
    moreover from Cons.prems have "primary_key xs"
      by (simp add: primary_key_def)
    ultimately show ?thesis
      using Cons.IH mem Cons.prems by simp
  qed
qed

lemma update_ttl_mem:
  "r \<in> set d \<Longrightarrow> where_key u n r \<Longrightarrow> r\<lparr>ttl := t\<rparr> \<in> set (update_ttl t u n d)"
  unfolding update_ttl_def set_map by (rule image_eqI [where x = r]) simp_all

lemma update_ttl_matching:
  assumes "x \<in> set (update_ttl t u n d)" and "where_key u n x"
  shows "ttl x = t"
proof -
  from assms(1) obtain y where y: "y \<in> set d"
    and x: "x = (if where_key u n y then y\<lparr>ttl := t\<rparr> else y)"
    unfolding update_ttl_def set_map by blast
  show ?thesis
  proof (cases "where_key u n y")
    case True
    with x show ?thesis by simp
  next
    case False
    with x assms(2) show ?thesis by simp
  qed
qed

lemma update_ttl_others:
  assumes "\<not> where_key u n x"
  shows "x \<in> set (update_ttl t u n d) \<longleftrightarrow> x \<in> set d"
proof
  assume "x \<in> set (update_ttl t u n d)"
  then obtain y where y: "y \<in> set d"
    and x: "x = (if where_key u n y then y\<lparr>ttl := t\<rparr> else y)"
    unfolding update_ttl_def set_map by blast
  show "x \<in> set d"
  proof (cases "where_key u n y")
    case True
    with x have "where_key u n x" by (simp add: where_key_def)
    with assms show ?thesis by simp
  next
    case False
    with x y show ?thesis by simp
  qed
next
  assume "x \<in> set d"
  with assms show "x \<in> set (update_ttl t u n d)"
    unfolding update_ttl_def set_map by (intro image_eqI [where x = x]) simp_all
qed

lemma update_ttl_no_match:
  assumes "\<forall>r \<in> set d. \<not> where_key u n r"
  shows "update_ttl t u n d = d"
  unfolding update_ttl_def using assms by (simp add: map_idI)

subsection \<open>Extend\<close>

text \<open>
  Claim C1 says that \<open>extend_session\<close> persists
  \<open>new_ttl = max 0 (ttl - (now - created_at)) + added\<close> for every stored session with a
  finite lease and every number of added seconds. Two requests on a finite session of the
  caller persist nothing. With \<open>ttl=9223372036854775808\<close> the sum is no SQLite integer:
  the \<open>UPDATE\<close> raises \<open>OverflowError\<close> and the stored lease stays 3600. With the
  creation time stored as the integer 1704067200 the conversion raises
  \<open>AttributeError\<close> before the \<open>UPDATE\<close>, and the stored lease stays 3600 as well.
\<close>

theorem extend_session_not_persisted:
  "extend_session demo_lib 1704069000
     (mk_request GET (Some ''alice'') None (Literal 9223372036854775808) None) ''ws-1''
     [mk_row ''alice'' ''ws-1'' (SText ''2024-01-01T00:00:00'') 3600]
   = (Raised OverflowError,
      [mk_row ''alice'' ''ws-1'' (SText ''2024-01-01T00:00:00'') 3600], [DbSelect])
   \<and> extend_session demo_lib 1704069000
     (mk_request GET (Some ''alice'') None Absent None) ''ws-1''
     [mk_row ''alice'' ''ws-1'' (SInt 1704067200) 3600]
   = (Raised AttributeError, [mk_row ''alice'' ''ws-1'' (SInt 1704067200) 3600], [DbSelect])"
  by (simp add: extend_session_def mk_request_def get_user_id_def py_or_def where_key_def
      mk_row_def created_to_ts_def demo_lib_def replace_Z_def sqlite_int_def)

text \<open>
  Claim C1, amended. Take the stored session of the caller under the given container
  name, and a call of \<open>extend_session\<close> with \<open>added\<close> seconds (7200 when the
  argument is left out) at time \<open>now\<close>. When the stored lease is finite (\<open>ttl > 0\<close>)
  and the creation time is stored as a text that reads as \<open>created_at\<close> (ISO-8601 through
  \<open>fromisoformat\<close> and \<open>timestamp\<close>, or else a decimal text through \<open>int\<close>), let
  \<open>old_remaining = max 0 (ttl - (now - created_at))\<close> and
  \<open>new_ttl = old_remaining + added\<close>. If \<open>new_ttl\<close> is a signed 64-bit integer, the
  handler answers \<open>old_remaining\<close>, \<open>added\<close> and \<open>new_ttl\<close>, the store holds
  \<open>new_ttl\<close> for that session afterwards, and every other session is as before. If it
  is not, the \<open>UPDATE\<close> raises \<open>OverflowError\<close> and the store is unchanged. When the
  stored lease is \<open>0\<close>, the handler answers "already infinite" and the store is
  unchanged, with no update issued.
\<close>

theorem extend_session_ttl:
  assumes pk: "primary_key d" and mem: "r \<in> set d"
    and key: "where_key (get_user_id req) cname r"
    and meth: "http_method req \<noteq> OPTIONS"
    and arg: "arg_ttl req = Literal added \<or> arg_ttl req = Absent \<and> added = 7200"
  shows "(0 < ttl r \<and> created r = SText s \<and>
            ((\<exists>dt. fromisoformat L (replace_Z s) = Some dt \<and> timestamp L dt = Inr created_at)
             \<or> fromisoformat L (replace_Z s) = None \<and> int_of_str L s = Some created_at) \<longrightarrow>
           (let old_remaining = max 0 (ttl r - (now - created_at));
                new_ttl = old_remaining + added
            in (sqlite_int new_ttl \<longrightarrow>
                  extend_session L now req cname d =
                    (Extended old_remaining added new_ttl,
                     update_ttl new_ttl (get_user_id req) cname d, [DbSelect, DbUpdate])
                  \<and> r\<lparr>ttl := new_ttl\<rparr> \<in> set (update_ttl new_ttl (get_user_id req) cname d)
                  \<and> (\<forall>x \<in> set (update_ttl new_ttl (get_user_id req) cname d).
                        where_key (get_user_id req) cname x \<longrightarrow> ttl x = new_ttl)
                  \<and> (\<forall>x. \<not> where_key (get_user_id req) cname x \<longrightarrow>
                        (x \<in> set (update_ttl new_ttl (get_user_id req) cname d)
                           \<longleftrightarrow> x \<in> set d)))
               \<and> (\<not> sqlite_int new_ttl \<longrightarrow>
                  extend_session L now req cname d = (Raised OverflowError, d, [DbSelect]))))
       \<and> (ttl r = 0 \<longrightarrow> extend_session L now req cname d = (AlreadyInfinite, d, [DbSelect]))"
proof -
  define u where "u = get_user_id req"
  have found: "find (where_key u cname) d = Some r"
    unfolding u_def using pk mem key by (rule find_where_key)
  have added: "(case arg_ttl req of Literal n \<Rightarrow> n | _ \<Rightarrow> 7200) = added"
    and wf: "arg_ttl req \<noteq> Malformed"
    using arg by auto
  have inf: "extend_session L now req cname d = (AlreadyInfinite, d, [DbSelect])"
    if "ttl r = 0"
    using that found meth wf
    by (cases "arg_ttl req") (simp_all add: extend_session_def u_def)
  have reads: "created_to_ts L (created r) = Inr created_at"
    if "created r = SText s"
      and "(\<exists>dt. fromisoformat L (replace_Z s) = Some dt \<and> timestamp L dt = Inr created_at)
           \<or> fromisoformat L (replace_Z s) = None \<and> int_of_str L s = Some created_at"
    using that by (auto simp: created_to_ts_def int_fallback_def)
  have fin: "extend_session L now req cname d =
        (if sqlite_int (max 0 (ttl r - (now - created_at)) + added)
         then (Extended (max 0 (ttl r - (now - created_at))) added
                 (max 0 (ttl r - (now - created_at)) + added),
               update_ttl (max 0 (ttl r - (now - created_at)) + added) u cname d,
               [DbSelect, DbUpdate])
         else (Raised OverflowError, d, [DbSelect]))"
    if "0 < ttl r" and "created_to_ts L (created r) = Inr created_at"
    using that found meth wf added
    by (cases "arg_ttl req") (simp_all add: extend_session_def Let_def u_def)
  have stored: "\<forall>x \<in> set (update_ttl t u cname d). where_key u cname x \<longrightarrow> ttl x = t" for t
    by (blast intro: update_ttl_matching)
  have others: "\<forall>x. \<not> where_key u cname x \<longrightarrow> (x \<in> set (update_ttl t u cname d) \<longleftrightarrow> x \<in> set d)"
    for t
    by (simp add: update_ttl_others)
  have member: "r\<lparr>ttl := t\<rparr> \<in> set (update_ttl t u cname d)" for t
    using mem key unfolding u_def by (rule update_ttl_mem)
  show ?thesis
    unfolding Let_def u_def [symmetric]
  proof (intro conjI impI)
    assume a: "0 < ttl r \<and> created r = SText s \<and>
      ((\<exists>dt. fromisoformat L (replace_Z s) = Some dt \<and> timestamp L dt = Inr created_at)
       \<or> fromisoformat L (replace_Z s) = None \<and> int_of_str L s = Some created_at)"
    then have r: "created_to_ts L (created r) = Inr created_at"
      using reads by blast
    from a have pos: "0 < ttl r" by simp
    {
      assume ok: "sqlite_int (max 0 (ttl r - (now - created_at)) + added)"
      from fin [OF pos r] ok
      show "extend_session L now req cname d =
          (Extended (max 0 (ttl r - (now - created_at))) added
             (max 0 (ttl r - (now - created_at)) + added),
           update_ttl (max 0 (ttl r - (now - created_at)) + added) u cname d,
           [DbSelect, DbUpdate])"
        by simp
      show "r\<lparr>ttl := max 0 (ttl r - (now - created_at)) + added\<rparr>
          \<in> set (update_ttl (max 0 (ttl r - (now - created_at)) + added) u cname d)"
        by (rule member)
      show "\<forall>x \<in> set (update_ttl (max 0 (ttl r - (now - created_at)) + added) u cname d).
          where_key u cname x \<longrightarrow> ttl x = max 0 (ttl r - (now - created_at)) + added"
        by (rule stored)
      show "\<forall>x. \<not> where_key u cname x \<longrightarrow>
          (x \<in> set (update_ttl (max 0 (ttl r - (now - created_at)) + added) u cname d)
             \<longleftrightarrow> x \<in> set d)"
        by (rule others)
    }
    {
      assume bad: "\<not> sqlite_int (max 0 (ttl r - (now - created_at)) + added)"
      from fin [OF pos r] bad
      show "extend_session L now req cname d = (Raised OverflowError, d, [DbSelect])"
        by simp
    }
  next
    assume "ttl r = 0"
    then show "extend_session L now req cname d = (AlreadyInfinite, d, [DbSelect])"
      by (rule inf)
  qed
qed

theorem extend_session_ttl_witness:
  "extend_session demo_lib 1704069000
     (mk_request GET (Some ''alice'') None Absent None) ''ws-1''
     [mk_row ''alice'' ''ws-1'' (SText ''2024-01-01T00:00:00'') 3600]
   = (Extended 1800 7200 9000,
      [mk_row ''alice'' ''ws-1'' (SText ''2024-01-01T00:00:00'') 9000], [DbSelect, DbUpdate])
   \<and> extend_session demo_lib 1704069000
     (mk_request GET (Some ''alice'') None Absent None) ''ws-1''
     [mk_row ''alice'' ''ws-1'' (SText ''2024-01-01T00:00:00'') 0]
   = (AlreadyInfinite, [mk_row ''alice'' ''ws-1'' (SText ''2024-01-01T00:00:00'') 0], [DbSelect])"
proof -
  let ?req = "mk_request GET (Some ''alice'') None Absent None"
  let ?fin = "mk_row ''alice'' ''ws-1'' (SText ''2024-01-01T00:00:00'') 3600"
  let ?inf = "mk_row ''alice'' ''ws-1'' (SText ''2024-01-01T00:00:00'') 0"
  have uid: "get_user_id ?req = ''alice''"
    by (simp add: get_user_id_def py_or_def mk_request_def)
  have a: "arg_ttl ?req = Literal 7200 \<or> arg_ttl ?req = Absent \<and> (7200::int) = 7200"
    by (simp add: mk_request_def)
  have m: "http_method ?req \<noteq> OPTIONS"
    by (simp add: mk_request_def)
  have k: "where_key (get_user_id ?req) ''ws-1'' ?fin" "where_key (get_user_id ?req) ''ws-1'' ?inf"
    by (simp_all add: uid where_key_def mk_row_def)
  have pk: "primary_key [?fin]" "primary_key [?inf]"
    by (simp_all add: primary_key_def)
  have c: "created ?fin = SText ''2024-01-01T00:00:00''"
    by (simp add: mk_row_def)
  have iso: "(\<exists>dt. fromisoformat demo_lib (replace_Z ''2024-01-01T00:00:00'') = Some dt
        \<and> timestamp demo_lib dt = Inr 1704067200)
      \<or> fromisoformat demo_lib (replace_Z ''2024-01-01T00:00:00'') = None
        \<and> int_of_str demo_lib ''2024-01-01T00:00:00'' = Some 1704067200"
    by (simp add: demo_lib_def replace_Z_def)
  have t: "ttl ?fin = 3600" "ttl ?inf = 0"
    by (simp_all add: mk_row_def)
  have ok: "sqlite_int 9000"
    by (simp add: sqlite_int_def)
  have u: "update_ttl 9000 ''alice'' ''ws-1'' [?fin]
      = [mk_row ''alice'' ''ws-1'' (SText ''2024-01-01T00:00:00'') 9000]"
    by (simp add: update_ttl_def where_key_def mk_row_def)
  from extend_session_ttl [where L = demo_lib and now = 1704069000
      and created_at = 1704067200 and s = "''2024-01-01T00:00:00''", OF pk(1) _ k(1) m a]
    c iso t ok u uid
  have 1: "extend_session demo_lib 1704069000 ?req ''ws-1'' [?fin] =
      (Extended 1800 7200 9000, [mk_row ''alice'' ''ws-1'' (SText ''2024-01-01T00:00:00'') 9000],
       [DbSelect, DbUpdate])"
    by (simp add: Let_def)
  from extend_session_ttl [where L = demo_lib and now = 1704069000
      and created_at = 1704067200 and s = "''2024-01-01T00:00:00''", OF pk(2) _ k(2) m a] t
  have 2: "extend_session demo_lib 1704069000 ?req ''ws-1'' [?inf]
      = (AlreadyInfinite, [?inf], [DbSelect])"
    by simp
  show ?thesis using 1 2 by simp
qed

subsection \<open>Toggle\<close>

text \<open>
  When the Flask session carries the identity of the owner, \<open>toggle_autokill\<close> writes
  the lease of the session: \<open>0\<close> with mode \<open>infinite\<close>, \<open>7200\<close> with mode
  \<open>finite\<close>, whatever the lease was.
\<close>

lemma toggle_autokill_session_identity:
  assumes mem: "r \<in> set d"
    and who: "session_user_id req = Some u"
    and key: "where_key u cname r"
  shows "(json_infinite req \<noteq> Some False \<longrightarrow>
            toggle_autokill req cname d = (Toggled ''infinite'', update_ttl 0 u cname d, [DbUpdate])
            \<and> r\<lparr>ttl := 0\<rparr> \<in> set (update_ttl 0 u cname d)
            \<and> (\<forall>x \<in> set (update_ttl 0 u cname d). where_key u cname x \<longrightarrow> ttl x = 0))
       \<and> (json_infinite req = Some False \<longrightarrow>
            toggle_autokill req cname d = (Toggled ''finite'', update_ttl 7200 u cname d, [DbUpdate])
            \<and> r\<lparr>ttl := 7200\<rparr> \<in> set (update_ttl 7200 u cname d)
            \<and> (\<forall>x \<in> set (update_ttl 7200 u cname d). where_key u cname x \<longrightarrow> ttl x = 7200))"
proof -
  have on: "toggle_autokill req cname d = (Toggled ''infinite'', update_ttl 0 u cname d, [DbUpdate])"
    if "json_infinite req \<noteq> Some False"
    using that who by (cases "json_infinite req") (auto simp: toggle_autokill_def update_ttl_as_def)
  have off: "toggle_autokill req cname d = (Toggled ''finite'', update_ttl 7200 u cname d, [DbUpdate])"
    if "json_infinite req = Some False"
    using that who by (simp add: toggle_autokill_def update_ttl_as_def)
  have stored: "\<forall>x \<in> set (update_ttl t u cname d). where_key u cname x \<longrightarrow> ttl x = t" for t
    by (blast intro: update_ttl_matching)
  show ?thesis
    using on off update_ttl_mem [OF mem key] stored by blast
qed

text \<open>
  Claim C7 says that a toggle persists \<open>ttl = 0\<close> (mode \<open>infinite\<close>) or
  \<open>ttl = 7200\<close> (mode \<open>finite\<close>) for every current lease. \<open>toggle_autokill\<close>
  takes the identity from the Flask session alone, where every other handler calls
  \<open>get_user_id\<close>. For an owner whom the proxy header identifies, with no \<open>user_id\<close>
  in the session, the \<open>UPDATE\<close> matches no row: the handler answers \<open>infinite\<close>
  while the stored lease stays 3600, and answers \<open>finite\<close> while it stays 0.
\<close>

theorem toggle_autokill_header_only:
  "get_user_id (mk_request POST (Some ''alice'') None Absent (Some True)) = ''alice''
   \<and> toggle_autokill (mk_request POST (Some ''alice'') None Absent (Some True)) ''ws-1''
        [mk_row ''alice'' ''ws-1'' (SText ''2024-01-01T00:00:00'') 3600]
      = (Toggled ''infinite'', [mk_row ''alice'' ''ws-1'' (SText ''2024-01-01T00:00:00'') 3600],
         [DbUpdate])
   \<and> toggle_autokill (mk_request POST (Some ''alice'') None Absent (Some False)) ''ws-1''
        [mk_row ''alice'' ''ws-1'' (SText ''2024-01-01T00:00:00'') 0]
      = (Toggled ''finite'', [mk_row ''alice'' ''ws-1'' (SText ''2024-01-01T00:00:00'') 0],
         [DbUpdate])"
  by (simp add: get_user_id_def py_or_def mk_request_def toggle_autokill_def update_ttl_as_def)

text \<open>
  Claim C10. When the store has no session under the pair of the Flask-session identity
  and the container name, \<open>toggle_autokill\<close> still answers with success and the
  requested mode (\<open>infinite\<close> or \<open>finite\<close>), never with not-found, and the store is
  left as it was.
\<close>

theorem toggle_autokill_absent:
  assumes "\<forall>r \<in> set d. \<not> (session_user_id req = Some (user_id r) \<and> container_name r = cname)"
  shows "toggle_autokill req cname d =
           (Toggled (if json_infinite req = Some False then ''finite'' else ''infinite''),
            d, [DbUpdate])"
proof -
  have same: "update_ttl_as t (session_user_id req) cname d = d" for t
  proof (cases "session_user_id req")
    case None
    then show ?thesis by (simp add: update_ttl_as_def)
  next
    case (Some u)
    with assms have "\<forall>r \<in> set d. \<not> where_key u cname r"
      by (auto simp: where_key_def)
    then have "update_ttl t u cname d = d" by (rule update_ttl_no_match)
    with Some show ?thesis by (simp add: update_ttl_as_def)
  qed
  show ?thesis
    by (cases "json_infinite req") (auto simp: toggle_autokill_def same)
qed

theorem toggle_autokill_absent_witness:
  "toggle_autokill (mk_request POST None (Some ''bob'') Absent (Some False)) ''ws-1''
     [mk_row ''alice'' ''ws-1'' (SText ''2024-01-01T00:00:00'') 0]
   = (Toggled ''finite'', [mk_row ''alice'' ''ws-1'' (SText ''2024-01-01T00:00:00'') 0], [DbUpdate])"
proof -
  let ?req = "mk_request POST None (Some ''bob'') Absent (Some False)"
  let ?inf = "mk_row ''alice'' ''ws-1'' (SText ''2024-01-01T00:00:00'') 0"
  have absent: "\<forall>r \<in> set [?inf]. \<not> (session_user_id ?req = Some (user_id r) \<and> container_name r = ''ws-1'')"
    by (simp add: mk_request_def mk_row_def)
  have "json_infinite ?req = Some False" by (simp add: mk_request_def)
  with toggle_autokill_absent [OF absent] show ?thesis by simp
qed

subsection \<open>Requests without an identity\<close>

text \<open>
  The handlers \<open>api_start\<close>, \<open>api_list\<close> and \<open>api_stop\<close> answer a request without
  a usable identity with \<open>Unauthorized\<close> before any other step.
\<close>

lemma unauthorized_no_effects:
  assumes "not_authorized (get_user_id req)"
  shows "api_start E R req img d D = (Unauthorized, d, D, [])"
    and "api_list L E now req d = (Unauthorized, [])"
    and "api_stop req cname d D = (Unauthorized, d, D, [])"
  using assms by (simp_all add: api_start_def api_list_def api_stop_def)

text \<open>
  Claim C2 asks the same of every control operation: a request with no resolvable caller
  identity is answered with \<open>Unauthorized\<close> and reaches neither the store nor the
  runtime. The two remaining handlers behave otherwise. For a request with no header and
  no session identity, \<open>toggle_autokill\<close> issues its \<open>UPDATE\<close> and answers with
  success and mode \<open>infinite\<close>, and \<open>extend_session\<close> issues its \<open>SELECT\<close> under
  the name \<open>anonymous\<close> and answers not-found.
\<close>

theorem toggle_autokill_without_identity:
  "get_user_id (mk_request POST None None Absent (Some True)) = ''anonymous''
   \<and> session_user_id (mk_request POST None None Absent (Some True)) = None
   \<and> toggle_autokill (mk_request POST None None Absent (Some True)) ''ws-1''
        [mk_row ''alice'' ''ws-1'' (SText ''2024-01-01T00:00:00'') 3600]
      = (Toggled ''infinite'', [mk_row ''alice'' ''ws-1'' (SText ''2024-01-01T00:00:00'') 3600],
         [DbUpdate])
   \<and> extend_session demo_lib 1704069000 (mk_request GET None None Absent None) ''ws-1''
        [mk_row ''alice'' ''ws-1'' (SText ''2024-01-01T00:00:00'') 3600]
      = (NotFound, [mk_row ''alice'' ''ws-1'' (SText ''2024-01-01T00:00:00'') 3600], [DbSelect])"
  by (simp add: get_user_id_def py_or_def mk_request_def toggle_autokill_def update_ttl_as_def
      extend_session_def where_key_def mk_row_def)

subsection \<open>Provisioning failures\<close>

text \<open>
  Claim C6. For an authorised request with a well-formed \<open>ttl\<close> argument, when the image
  pull fails or the container launch fails, \<open>api_start\<close> answers with the failure
  (HTTP 500), the store is exactly what it was, and no store operation was issued.
\<close>

theorem api_start_failure_keeps_store:
  assumes auth: "\<not> not_authorized (get_user_id req)"
    and arg: "arg_ttl req \<noteq> Malformed"
    and fails: "pull_fails D (full_image_of E img)
                \<or> launch_fails D (name_of R (get_user_id req) img)"
  shows "\<exists>f tr. api_start E R req img d D = (Failed f, d, D, tr)
           \<and> list_all (\<lambda>e. \<not> store_event e) tr"
  using assms
  by (cases "arg_ttl req") (auto simp: api_start_def Let_def)

theorem api_start_failure_keeps_store_witness:
  "api_start demo_env \<lparr>new_password = ''s3cret'', uuid_hex8 = ''1a2b3c4d'', now_isoformat = ''2024-01-01T00:00:00''\<rparr>
     (mk_request GET (Some ''alice'') None Absent None) ''brave''
     [mk_row ''bob'' ''ws-1'' (SText ''2024-01-01T00:00:00'') 0]
     (demo_docker [''workspaces-alice-brave-1a2b3c4d''] [])
   = (Failed RunFailure, [mk_row ''bob'' ''ws-1'' (SText ''2024-01-01T00:00:00'') 0],
      demo_docker [''workspaces-alice-brave-1a2b3c4d''] [],
      [ImagePull ''gitea.domain.local:3002/brave:latest'',
       ContainerRun ''workspaces-alice-brave-1a2b3c4d''])"
proof -
  let ?R = "\<lparr>new_password = ''s3cret'', uuid_hex8 = ''1a2b3c4d'', now_isoformat = ''2024-01-01T00:00:00''\<rparr>"
  let ?req = "mk_request GET (Some ''alice'') None Absent None"
  let ?D = "demo_docker [''workspaces-alice-brave-1a2b3c4d''] []"
  have uid: "get_user_id ?req = ''alice''"
    by (simp add: get_user_id_def py_or_def mk_request_def)
  have auth: "\<not> not_authorized (get_user_id ?req)"
    by (simp add: uid not_authorized_def)
  have arg: "arg_ttl ?req \<noteq> Malformed"
    by (simp add: mk_request_def)
  have nm: "name_of ?R (get_user_id ?req) ''brave'' = ''workspaces-alice-brave-1a2b3c4d''"
    by (simp add: uid name_of_def replace_slash_def)
  have fails: "pull_fails ?D (full_image_of demo_env ''brave'')
      \<or> launch_fails ?D (name_of ?R (get_user_id ?req) ''brave'')"
    by (simp add: nm launch_fails_def demo_docker_def)
  have img: "full_image_of demo_env ''brave'' = ''gitea.domain.local:3002/brave:latest''"
    by (simp add: full_image_of_def demo_env_def)
  have pull: "\<not> pull_fails ?D (full_image_of demo_env ''brave'')"
    by (simp add: demo_docker_def)
  from api_start_failure_keeps_store [OF auth arg fails, of "[mk_row ''bob'' ''ws-1'' (SText ''2024-01-01T00:00:00'') 0]"]
  obtain f tr where res: "api_start demo_env ?R ?req ''brave''
      [mk_row ''bob'' ''ws-1'' (SText ''2024-01-01T00:00:00'') 0] ?D
      = (Failed f, [mk_row ''bob'' ''ws-1'' (SText ''2024-01-01T00:00:00'') 0], ?D, tr)"
    by blast
  have "api_start demo_env ?R ?req ''brave''
      [mk_row ''bob'' ''ws-1'' (SText ''2024-01-01T00:00:00'') 0] ?D
      = (Failed RunFailure, [mk_row ''bob'' ''ws-1'' (SText ''2024-01-01T00:00:00'') 0], ?D,
         [ImagePull (full_image_of demo_env ''brave''),
          ContainerRun (name_of ?R (get_user_id ?req) ''brave'')])"
    using auth pull fails by (simp add: api_start_def Let_def mk_request_def)
  with res show ?thesis by (simp add: nm img)
qed

subsection \<open>Sign of the stored lease\<close>

lemma ttl_nonneg_update:
  "ttl_nonneg d \<Longrightarrow> 0 \<le> t \<Longrightarrow> ttl_nonneg (update_ttl t u n d)"
  by (induction d) (simp_all add: ttl_nonneg_def update_ttl_def)

lemma ttl_nonneg_filter:
  "ttl_nonneg d \<Longrightarrow> ttl_nonneg (filter P d)"
  by (induction d) (simp_all add: ttl_nonneg_def)

lemma stop_and_delete_store:
  "fst (stop_and_delete names d D tr) = filter (\<lambda>r. container_name r \<notin> set names) d"
proof (induction names arbitrary: d D tr)
  case Nil
  show ?case by simp
next
  case (Cons name names)
  obtain D' evs where ts: "try_stop D name = (D', evs)" by (cases "try_stop D name")
  have "fst (stop_and_delete (name # names) d D tr)
      = fst (stop_and_delete names (delete_by_name name d) D' (tr @ evs @ [DbDelete]))"
    by (simp add: ts)
  also have "\<dots> = filter (\<lambda>r. container_name r \<notin> set names) (delete_by_name name d)"
    by (rule Cons.IH)
  also have "\<dots> = filter (\<lambda>r. container_name r \<notin> set (name # names)) d"
    by (auto simp: delete_by_name_def intro: filter_cong)
  finally show ?case .
qed

lemma ttl_nonneg_start:
  assumes "ttl_nonneg d" and "nonneg_arg (arg_ttl req)"
  shows "ttl_nonneg (fst (snd (api_start E R req img d D)))"
proof (cases "arg_ttl req")
  case Absent
  with assms(1) show ?thesis
    by (simp add: api_start_def Let_def insert_or_replace_def ttl_nonneg_def list_all_iff)
next
  case (Literal n)
  with assms have "0 \<le> n" by (simp add: nonneg_arg_def)
  with Literal assms(1) show ?thesis
    by (simp add: api_start_def Let_def insert_or_replace_def ttl_nonneg_def list_all_iff)
next
  case Malformed
  with assms(1) show ?thesis
    by (simp add: api_start_def Let_def)
qed

lemma ttl_nonneg_extend:
  assumes "ttl_nonneg d" and "nonneg_arg (arg_ttl req)"
  shows "ttl_nonneg (fst (snd (extend_session L now req cname d)))"
proof -
  have upd: "ttl_nonneg (update_ttl (max 0 x + a) u n d)" if "0 \<le> a" for x a :: int and u n
    using assms(1) that by (intro ttl_nonneg_update) simp_all
  show ?thesis
  proof (cases "arg_ttl req")
    case Absent
    with assms(1) upd [of 7200] show ?thesis
      by (simp add: extend_session_def Let_def split: option.split sum.split)
  next
    case (Literal a)
    with assms have "0 \<le> a" by (simp add: nonneg_arg_def)
    with Literal assms(1) upd [of a] show ?thesis
      by (simp add: extend_session_def Let_def split: option.split sum.split)
  next
    case Malformed
    with assms(1) show ?thesis by (simp add: extend_session_def)
  qed
qed

lemma ttl_nonneg_toggle:
  assumes "ttl_nonneg d"
  shows "ttl_nonneg (fst (snd (toggle_autokill req cname d)))"
proof -
  have "ttl_nonneg (update_ttl_as t (session_user_id req) cname d)" if "0 \<le> t" for t
    using assms that by (simp add: update_ttl_as_def ttl_nonneg_update split: option.split)
  from this [of 0] this [of 7200] show ?thesis
    by (simp add: toggle_autokill_def Let_def)
qed

lemma ttl_nonneg_stop:
  assumes "ttl_nonneg d"
  shows "ttl_nonneg (fst (snd (api_stop req cname d D)))"
  using assms ttl_nonneg_filter [OF assms, of "\<lambda>r. \<not> where_key (get_user_id req) cname r"]
  by (simp add: api_stop_def Let_def delete_by_key_def split: option.split prod.split)

lemma ttl_nonneg_sweep:
  assumes "ttl_nonneg d" and "cleanup_old_containers L now d D = Inr (d', D', tr)"
  shows "ttl_nonneg d'"
proof -
  from assms(2) obtain names where "stop_and_delete names d D [DbSelect] = (d', D', tr)"
    by (auto simp: cleanup_old_containers_def split: sum.splits)
  then have "d' = fst (stop_and_delete names d D [DbSelect])"
    by simp
  with assms(1) show ?thesis
    by (simp add: stop_and_delete_store ttl_nonneg_filter)
qed

text \<open>
  Claim C5 says that the stored \<open>ttl\<close> is never negative after any operation, whatever
  TTL is requested at provisioning and whatever number of seconds is added by an extension.
  The handlers store what \<open>int\<close> returns, without a check of its sign: provisioning
  with \<open>ttl=-5\<close> stores \<open>-5\<close>, and extending a lease that has 1800 seconds left by
  \<open>-7200\<close> stores \<open>-5400\<close>.
\<close>

theorem negative_ttl_is_stored:
  "fst (snd (api_start demo_env
       \<lparr>new_password = ''s3cret'', uuid_hex8 = ''1a2b3c4d'', now_isoformat = ''2024-01-01T00:00:00''\<rparr>
       (mk_request GET (Some ''alice'') None (Literal (- 5)) None) ''brave'' []
       (demo_docker [] [])))
   = [\<lparr>user_id = ''alice'', container_name = ''workspaces-alice-brave-1a2b3c4d'',
       image_col = ''gitea.domain.local:3002/brave:latest'', password = ''s3cret'',
       created = SText ''2024-01-01T00:00:00'', ttl = - 5\<rparr>]
   \<and> \<not> ttl_nonneg (fst (snd (api_start demo_env
       \<lparr>new_password = ''s3cret'', uuid_hex8 = ''1a2b3c4d'', now_isoformat = ''2024-01-01T00:00:00''\<rparr>
       (mk_request GET (Some ''alice'') None (Literal (- 5)) None) ''brave'' []
       (demo_docker [] []))))
   \<and> fst (snd (extend_session demo_lib 1704069000
       (mk_request GET (Some ''alice'') None (Literal (- 7200)) None) ''ws-1''
       [mk_row ''alice'' ''ws-1'' (SText ''2024-01-01T00:00:00'') 3600]))
     = [mk_row ''alice'' ''ws-1'' (SText ''2024-01-01T00:00:00'') (- 5400)]"
  by (simp add: api_start_def Let_def get_user_id_def py_or_def mk_request_def not_authorized_def
      demo_docker_def demo_env_def full_image_of_def name_of_def replace_slash_def
      launch_fails_def insert_or_replace_def ttl_nonneg_def
      extend_session_def where_key_def mk_row_def created_to_ts_def demo_lib_def replace_Z_def
      update_ttl_def sqlite_int_def)

text \<open>
  Claim C5, amended. If no stored \<open>ttl\<close> is negative before the operation, none is
  negative after it, for: provisioning with a requested TTL that is absent or not negative;
  an extension by a number of seconds that is absent (7200) or not negative; a toggle; a
  stop; a sweep.
\<close>

theorem ttl_nonneg_preserved:
  assumes "ttl_nonneg d"
  shows "(nonneg_arg (arg_ttl req_start) \<longrightarrow>
            ttl_nonneg (fst (snd (api_start E R req_start img d D))))
       \<and> (nonneg_arg (arg_ttl req_extend) \<longrightarrow>
            ttl_nonneg (fst (snd (extend_session L now req_extend cname d))))
       \<and> ttl_nonneg (fst (snd (toggle_autokill req_toggle cname d)))
       \<and> ttl_nonneg (fst (snd (api_stop req_stop cname d D)))
       \<and> (\<forall>d' D' tr. cleanup_old_containers L now d D = Inr (d', D', tr) \<longrightarrow> ttl_nonneg d')"
proof (intro conjI impI allI)
  show "ttl_nonneg (fst (snd (api_start E R req_start img d D)))"
    if "nonneg_arg (arg_ttl req_start)"
    using assms that by (rule ttl_nonneg_start)
  show "ttl_nonneg (fst (snd (extend_session L now req_extend cname d)))"
    if "nonneg_arg (arg_ttl req_extend)"
    using assms that by (rule ttl_nonneg_extend)
  show "ttl_nonneg (fst (snd (toggle_autokill req_toggle cname d)))"
    using assms by (rule ttl_nonneg_toggle)
  show "ttl_nonneg (fst (snd (api_stop req_stop cname d D)))"
    using assms by (rule ttl_nonneg_stop)
  show "ttl_nonneg d'" if "cleanup_old_containers L now d D = Inr (d', D', tr)" for d' D' tr
    using assms that by (rule ttl_nonneg_sweep)
qed

theorem ttl_nonneg_preserved_witness:
  "fst (snd (api_start demo_env
       \<lparr>new_password = ''s3cret'', uuid_hex8 = ''1a2b3c4d'', now_isoformat = ''2024-01-01T00:00:00''\<rparr>
       (mk_request GET (Some ''alice'') None (Literal 7200) None) ''brave''
       [mk_row ''alice'' ''ws-1'' (SText ''2024-01-01T00:00:00'') 3600,
        mk_row ''alice'' ''ws-2'' (SText ''2024-01-01T00:00:00'') 0]
       (demo_docker [''ws-1'', ''ws-2''] [])))
     = [mk_row ''alice'' ''ws-1'' (SText ''2024-01-01T00:00:00'') 3600,
        mk_row ''alice'' ''ws-2'' (SText ''2024-01-01T00:00:00'') 0,
        \<lparr>user_id = ''alice'', container_name = ''workspaces-alice-brave-1a2b3c4d'',
         image_col = ''gitea.domain.local:3002/brave:latest'', password = ''s3cret'',
         created = SText ''2024-01-01T00:00:00'', ttl = 7200\<rparr>]
   \<and> ttl_nonneg (fst (snd (api_start demo_env
       \<lparr>new_password = ''s3cret'', uuid_hex8 = ''1a2b3c4d'', now_isoformat = ''2024-01-01T00:00:00''\<rparr>
       (mk_request GET (Some ''alice'') None (Literal 7200) None) ''brave''
       [mk_row ''alice'' ''ws-1'' (SText ''2024-01-01T00:00:00'') 3600,
        mk_row ''alice'' ''ws-2'' (SText ''2024-01-01T00:00:00'') 0]
       (demo_docker [''ws-1'', ''ws-2''] []))))
   \<and> fst (snd (extend_session demo_lib 1704069000
       (mk_request GET (Some ''alice'') None (Literal 7200) None) ''ws-1''
       [mk_row ''alice'' ''ws-1'' (SText ''2024-01-01T00:00:00'') 3600,
        mk_row ''alice'' ''ws-2'' (SText ''2024-01-01T00:00:00'') 0]))
     = [mk_row ''alice'' ''ws-1'' (SText ''2024-01-01T00:00:00'') 9000,
        mk_row ''alice'' ''ws-2'' (SText ''2024-01-01T00:00:00'') 0]
   \<and> ttl_nonneg (fst (snd (extend_session demo_lib 1704069000
       (mk_request GET (Some ''alice'') None (Literal 7200) None) ''ws-1''
       [mk_row ''alice'' ''ws-1'' (SText ''2024-01-01T00:00:00'') 3600,
        mk_row ''alice'' ''ws-2'' (SText ''2024-01-01T00:00:00'') 0])))
   \<and> fst (snd (toggle_autokill
       (mk_request POST (Some ''alice'') (Some ''alice'') Absent (Some False)) ''ws-2''
       [mk_row ''alice'' ''ws-1'' (SText ''2024-01-01T00:00:00'') 3600,
        mk_row ''alice'' ''ws-2'' (SText ''2024-01-01T00:00:00'') 0]))
     = [mk_row ''alice'' ''ws-1'' (SText ''2024-01-01T00:00:00'') 3600,
        mk_row ''alice'' ''ws-2'' (SText ''2024-01-01T00:00:00'') 7200]
   \<and> ttl_nonneg (fst (snd (toggle_autokill
       (mk_request POST (Some ''alice'') (Some ''alice'') Absent (Some False)) ''ws-2''
       [mk_row ''alice'' ''ws-1'' (SText ''2024-01-01T00:00:00'') 3600,
        mk_row ''alice'' ''ws-2'' (SText ''2024-01-01T00:00:00'') 0])))
   \<and> fst (snd (api_stop
       (mk_request GET (Some ''alice'') None Absent None) ''ws-1''
       [mk_row ''alice'' ''ws-1'' (SText ''2024-01-01T00:00:00'') 3600,
        mk_row ''alice'' ''ws-2'' (SText ''2024-01-01T00:00:00'') 0]
       (demo_docker [''ws-1'', ''ws-2''] [])))
     = [mk_row ''alice'' ''ws-2'' (SText ''2024-01-01T00:00:00'') 0]
   \<and> ttl_nonneg (fst (snd (api_stop
       (mk_request GET (Some ''alice'') None Absent None) ''ws-1''
       [mk_row ''alice'' ''ws-1'' (SText ''2024-01-01T00:00:00'') 3600,
        mk_row ''alice'' ''ws-2'' (SText ''2024-01-01T00:00:00'') 0]
       (demo_docker [''ws-1'', ''ws-2''] []))))
   \<and> cleanup_old_containers demo_lib 1704074400
       [mk_row ''alice'' ''ws-1'' (SText ''2024-01-01T00:00:00'') 3600,
        mk_row ''alice'' ''ws-2'' (SText ''2024-01-01T00:00:00'') 0]
       (demo_docker [''ws-1'', ''ws-2''] [])
     = Inr ([mk_row ''alice'' ''ws-2'' (SText ''2024-01-01T00:00:00'') 0],
            demo_docker [''ws-2''] [],
            [DbSelect, ContainerGet ''ws-1'', ContainerStop ''ws-1'', DbDelete])
   \<and> ttl_nonneg [mk_row ''alice'' ''ws-2'' (SText ''2024-01-01T00:00:00'') 0]"
proof -
  let ?d = "[mk_row ''alice'' ''ws-1'' (SText ''2024-01-01T00:00:00'') 3600,
        mk_row ''alice'' ''ws-2'' (SText ''2024-01-01T00:00:00'') 0]"
  let ?D = "demo_docker [''ws-1'', ''ws-2''] []"
  let ?R = "\<lparr>new_password = ''s3cret'', uuid_hex8 = ''1a2b3c4d'',
        now_isoformat = ''2024-01-01T00:00:00''\<rparr>"
  let ?q = "mk_request GET (Some ''alice'') None (Literal 7200) None"
  let ?qt = "mk_request POST (Some ''alice'') (Some ''alice'') Absent (Some False)"
  let ?qs = "mk_request GET (Some ''alice'') None Absent None"
  have inv: "ttl_nonneg ?d"
    by (simp add: ttl_nonneg_def mk_row_def)
  have arg: "nonneg_arg (arg_ttl ?q)"
    by (simp add: nonneg_arg_def mk_request_def)
  have started: "fst (snd (api_start demo_env ?R ?q ''brave'' ?d ?D))
      = [mk_row ''alice'' ''ws-1'' (SText ''2024-01-01T00:00:00'') 3600,
         mk_row ''alice'' ''ws-2'' (SText ''2024-01-01T00:00:00'') 0,
         \<lparr>user_id = ''alice'', container_name = ''workspaces-alice-brave-1a2b3c4d'',
          image_col = ''gitea.domain.local:3002/brave:latest'', password = ''s3cret'',
          created = SText ''2024-01-01T00:00:00'', ttl = 7200\<rparr>]"
    by (simp add: api_start_def Let_def get_user_id_def py_or_def mk_request_def
        not_authorized_def demo_docker_def demo_env_def full_image_of_def name_of_def
        replace_slash_def launch_fails_def insert_or_replace_def row_key_def sqlite_int_def
        mk_row_def)
  have extended: "fst (snd (extend_session demo_lib 1704069000 ?q ''ws-1'' ?d))
      = [mk_row ''alice'' ''ws-1'' (SText ''2024-01-01T00:00:00'') 9000,
         mk_row ''alice'' ''ws-2'' (SText ''2024-01-01T00:00:00'') 0]"
    by (simp add: extend_session_def Let_def get_user_id_def py_or_def mk_request_def
        where_key_def mk_row_def created_to_ts_def demo_lib_def replace_Z_def sqlite_int_def
        update_ttl_def)
  have toggled: "fst (snd (toggle_autokill ?qt ''ws-2'' ?d))
      = [mk_row ''alice'' ''ws-1'' (SText ''2024-01-01T00:00:00'') 3600,
         mk_row ''alice'' ''ws-2'' (SText ''2024-01-01T00:00:00'') 7200]"
    by (simp add: toggle_autokill_def update_ttl_as_def update_ttl_def mk_request_def
        where_key_def mk_row_def)
  have stopped: "fst (snd (api_stop ?qs ''ws-1'' ?d ?D))
      = [mk_row ''alice'' ''ws-2'' (SText ''2024-01-01T00:00:00'') 0]"
    by (simp add: api_stop_def Let_def get_user_id_def py_or_def mk_request_def
        not_authorized_def where_key_def mk_row_def try_stop_def demo_docker_def
        delete_by_key_def)
  have sweep: "cleanup_old_containers demo_lib 1704074400 ?d ?D
      = Inr ([mk_row ''alice'' ''ws-2'' (SText ''2024-01-01T00:00:00'') 0],
             demo_docker [''ws-2''] [],
             [DbSelect, ContainerGet ''ws-1'', ContainerStop ''ws-1'', DbDelete])"
    by (simp add: cleanup_old_containers_def select_finite_def mk_row_def created_to_ts_def
        demo_lib_def replace_Z_def try_stop_def demo_docker_def delete_by_name_def)
  note kept = ttl_nonneg_preserved [OF inv, where req_start = ?q and E = demo_env and R = ?R
      and img = "''brave''" and D = ?D and L = demo_lib and now = 1704074400
      and req_stop = ?qs and cname = "''ws-1''"]
  note kept_extend = ttl_nonneg_preserved [OF inv, where req_extend = ?q and L = demo_lib
      and now = 1704069000 and cname = "''ws-1''"]
  note kept_toggle = ttl_nonneg_preserved [OF inv, where req_toggle = ?qt
      and cname = "''ws-2''"]
  from kept arg have 1: "ttl_nonneg (fst (snd (api_start demo_env ?R ?q ''brave'' ?d ?D)))"
    by blast
  from kept_extend arg
  have 2: "ttl_nonneg (fst (snd (extend_session demo_lib 1704069000 ?q ''ws-1'' ?d)))"
    by blast
  from kept_toggle have 3: "ttl_nonneg (fst (snd (toggle_autokill ?qt ''ws-2'' ?d)))"
    by blast
  from kept have 4: "ttl_nonneg (fst (snd (api_stop ?qs ''ws-1'' ?d ?D)))"
    by blast
  from kept sweep have 5: "ttl_nonneg [mk_row ''alice'' ''ws-2'' (SText ''2024-01-01T00:00:00'') 0]"
    by blast
  from started 1 extended 2 toggled 3 stopped 4 sweep 5 show ?thesis
    by (intro conjI)
qed

subsection \<open>Listing\<close>

lemma list_entry_of_row:
  assumes "list_entry L E now r = Inr e"
  shows "entry_of_row E e r"
proof (cases "ttl r = 0")
  case True
  show ?thesis
  proof (cases "format_uptime L (created r) now")
    case (Inl x)
    with True assms show ?thesis by (simp add: list_entry_def)
  next
    case (Inr up)
    with True assms have "e = \<lparr>e_name = container_name r, e_image = image_col r,
        e_password = password r, e_time_left = None, e_infinite = True, e_uptime = up,
        e_url = ''https://'' @ container_name r @ ''.'' @ env_domain E, e_expires_at = None\<rparr>"
      by (simp add: list_entry_def)
    with True show ?thesis by (simp add: entry_of_row_def)
  qed
next
  case False
  show ?thesis
  proof (cases "created_to_dt L (created r)")
    case (Inl x)
    with False assms show ?thesis by (simp add: list_entry_def)
  next
    case (Inr c)
    show ?thesis
    proof (cases c)
      case (Aware a)
      with Inr False assms show ?thesis by (simp add: list_entry_def)
    next
      case (Naive x)
      have td: "timedelta_ok (ttl r)"
      proof (rule ccontr)
        assume "\<not> timedelta_ok (ttl r)"
        with Naive Inr False assms show False by (simp add: list_entry_def Let_def)
      qed
      have dt: "datetime_ok (x + ttl r * 1000000)"
      proof (rule ccontr)
        assume "\<not> datetime_ok (x + ttl r * 1000000)"
        with td Naive Inr False assms show False by (simp add: list_entry_def Let_def)
      qed
      from td dt Naive Inr False assms
      have "e_name e = container_name r" "e_image e = image_col r" "e_password e = password r"
        "e_url e = ''https://'' @ container_name r @ ''.'' @ env_domain E" "e_infinite e = False"
        by (auto simp: list_entry_def Let_def)
      with False show ?thesis by (simp add: entry_of_row_def)
    qed
  qed
qed

lemma list_entries_of_rows:
  assumes "list_entries L E now rows = Inr es"
  shows "list_all2 (entry_of_row E) es rows"
  using assms
proof (induction rows arbitrary: es)
  case Nil
  then show ?case by simp
next
  case (Cons r rows)
  show ?case
  proof (cases "list_entry L E now r")
    case (Inl x)
    with Cons.prems show ?thesis by simp
  next
    case e: (Inr e)
    show ?thesis
    proof (cases "list_entries L E now rows")
      case (Inl x)
      with e Cons.prems show ?thesis by simp
    next
      case es': (Inr es')
      with e Cons.prems have es: "es = e # es'" by simp
      from e have "entry_of_row E e r" by (rule list_entry_of_row)
      moreover from es' have "list_all2 (entry_of_row E) es' rows" by (rule Cons.IH)
      ultimately show ?thesis by (simp add: es)
    qed
  qed
qed

lemma list_all2_and_right:
  assumes "list_all2 P xs ys" and "\<forall>y \<in> set ys. Q y"
  shows "list_all2 (\<lambda>x y. Q y \<and> P x y) xs ys"
  using assms by (induction rule: list_all2_induct) simp_all

text \<open>
  Claim C8. For every caller and every store, \<open>api_list\<close> answers exactly as it would
  on the store cut down to the rows whose \<open>user_id\<close> is the caller's identity: no row of
  another owner has any influence on the answer, whatever its container name. When the
  answer is a listing, its entries are, one for one and in order, the rows of the store
  whose \<open>user_id\<close> is the caller's identity, each shown with its own name, image,
  password and URL.
\<close>

theorem api_list_only_own:
  "api_list L E now req d
     = api_list L E now req (filter (\<lambda>r. user_id r = get_user_id req) d)
   \<and> (\<forall>es. fst (api_list L E now req d) = Listed es \<longrightarrow>
         list_all2 (\<lambda>e r. r \<in> set d \<and> user_id r = get_user_id req \<and> entry_of_row E e r)
           es (filter (\<lambda>r. user_id r = get_user_id req) d))"
proof (intro conjI allI impI)
  show "api_list L E now req d
     = api_list L E now req (filter (\<lambda>r. user_id r = get_user_id req) d)"
    by (simp add: api_list_def Let_def)
next
  fix es
  let ?own = "filter (\<lambda>r. user_id r = get_user_id req) d"
  assume listed: "fst (api_list L E now req d) = Listed es"
  have "list_entries L E now ?own = Inr es"
  proof (cases "not_authorized (get_user_id req)")
    case True
    with listed show ?thesis by (simp add: api_list_def Let_def)
  next
    case False
    show ?thesis
    proof (cases "list_entries L E now ?own")
      case (Inl x)
      with False listed show ?thesis by (simp add: api_list_def Let_def)
    next
      case (Inr ys)
      with False listed show ?thesis by (simp add: api_list_def Let_def)
    qed
  qed
  then have "list_all2 (entry_of_row E) es ?own"
    by (rule list_entries_of_rows)
  moreover have "\<forall>r \<in> set ?own. r \<in> set d \<and> user_id r = get_user_id req"
    by simp
  ultimately have "list_all2
      (\<lambda>e r. (r \<in> set d \<and> user_id r = get_user_id req) \<and> entry_of_row E e r) es ?own"
    by (rule list_all2_and_right)
  then show "list_all2 (\<lambda>e r. r \<in> set d \<and> user_id r = get_user_id req \<and> entry_of_row E e r)
      es ?own"
    by (simp add: conj_assoc)
qed

theorem api_list_only_own_witness:
  "fst (api_list demo_lib demo_env 1704069000000000 (mk_request GET (Some ''alice'') None Absent None)
     [mk_row ''bob'' ''ws-1'' (SText ''2024-01-01T00:00:00'') 0,
      mk_row ''alice'' ''ws-1'' (SText ''2024-01-01T00:00:00'') 3600])
   = Listed [\<lparr>e_name = ''ws-1'', e_image = ''gitea.domain.local:3002/brave:latest'',
              e_password = ''pw'', e_time_left = Some (0, 30), e_infinite = False,
              e_uptime = (0, 30), e_url = ''https://ws-1.workspaces.domain.local'',
              e_expires_at = Some (Naive 1704070800000000)\<rparr>]
   \<and> list_all2
       (\<lambda>e r. r \<in> set [mk_row ''bob'' ''ws-1'' (SText ''2024-01-01T00:00:00'') 0,
                        mk_row ''alice'' ''ws-1'' (SText ''2024-01-01T00:00:00'') 3600]
          \<and> user_id r = get_user_id (mk_request GET (Some ''alice'') None Absent None)
          \<and> entry_of_row demo_env e r)
       [\<lparr>e_name = ''ws-1'', e_image = ''gitea.domain.local:3002/brave:latest'',
              e_password = ''pw'', e_time_left = Some (0, 30), e_infinite = False,
              e_uptime = (0, 30), e_url = ''https://ws-1.workspaces.domain.local'',
              e_expires_at = Some (Naive 1704070800000000)\<rparr>]
       [mk_row ''alice'' ''ws-1'' (SText ''2024-01-01T00:00:00'') 3600]"
proof -
  let ?req = "mk_request GET (Some ''alice'') None Absent None"
  let ?d = "[mk_row ''bob'' ''ws-1'' (SText ''2024-01-01T00:00:00'') 0,
      mk_row ''alice'' ''ws-1'' (SText ''2024-01-01T00:00:00'') 3600]"
  let ?e = "\<lparr>e_name = ''ws-1'', e_image = ''gitea.domain.local:3002/brave:latest'',
              e_password = ''pw'', e_time_left = Some (0, 30), e_infinite = False,
              e_uptime = (0, 30), e_url = ''https://ws-1.workspaces.domain.local'',
              e_expires_at = Some (Naive 1704070800000000)\<rparr>"
  have uid: "get_user_id ?req = ''alice''"
    by (simp add: get_user_id_def py_or_def mk_request_def)
  have own: "filter (\<lambda>r. user_id r = get_user_id ?req) ?d
      = [mk_row ''alice'' ''ws-1'' (SText ''2024-01-01T00:00:00'') 3600]"
    by (simp add: uid mk_row_def)
  have res: "fst (api_list demo_lib demo_env 1704069000000000 ?req
      [mk_row ''alice'' ''ws-1'' (SText ''2024-01-01T00:00:00'') 3600]) = Listed [?e]"
    by (simp add: api_list_def uid not_authorized_def mk_row_def list_entry_def created_to_dt_def
        demo_lib_def demo_env_def hours_minutes_def timedelta_ok_def datetime_ok_def Let_def)
  note own_only = api_list_only_own [of demo_lib demo_env 1704069000000000 ?req ?d]
  note same = own_only [THEN conjunct1, unfolded own]
  have listed: "fst (api_list demo_lib demo_env 1704069000000000 ?req ?d) = Listed [?e]"
    by (simp only: same res)
  note rows = own_only [THEN conjunct2, THEN spec, THEN mp, OF listed, unfolded own]
  from listed rows show ?thesis by (rule conjI)
qed

subsection \<open>The sweep\<close>

lemma stop_attempts_append:
  "stop_attempts (xs @ ys) = stop_attempts xs @ stop_attempts ys"
  by (induction xs rule: stop_attempts.induct) simp_all

lemma stop_attempts_try_stop:
  "stop_attempts (snd (try_stop D name)) = [name]"
  by (simp add: try_stop_def)

lemma stop_and_delete_attempts:
  "stop_attempts (snd (snd (stop_and_delete names d D tr))) = stop_attempts tr @ names"
proof (induction names arbitrary: d D tr)
  case Nil
  show ?case by simp
next
  case (Cons name names)
  obtain D' evs where ts: "try_stop D name = (D', evs)" by (cases "try_stop D name")
  then have evs: "stop_attempts evs = [name]"
    using stop_attempts_try_stop [of D name] by simp
  have "stop_attempts (snd (snd (stop_and_delete (name # names) d D tr)))
      = stop_attempts (snd (snd (stop_and_delete names (delete_by_name name d) D'
          (tr @ evs @ [DbDelete]))))"
    by (simp add: ts)
  also have "\<dots> = stop_attempts (tr @ evs @ [DbDelete]) @ names"
    by (rule Cons.IH)
  also have "\<dots> = stop_attempts tr @ name # names"
    by (simp add: stop_attempts_append evs)
  finally show ?case .
qed

lemma expired_names_readable:
  assumes "sweep_readable L d"
  shows "expired_names L now (select_finite d)
           = Inr (map container_name (filter (expired L now) d))"
  using assms
proof (induction d)
  case Nil
  show ?case by (simp add: select_finite_def)
next
  case (Cons r d)
  from Cons.prems have rest: "sweep_readable L d"
    by (simp add: sweep_readable_def)
  then have ih: "expired_names L now (select_finite d)
      = Inr (map container_name (filter (expired L now) d))"
    by (rule Cons.IH)
  show ?case
  proof (cases "0 < ttl r")
    case False
    then have "select_finite (r # d) = select_finite d" "\<not> expired L now r"
      by (simp_all add: select_finite_def expired_def)
    with ih show ?thesis by simp
  next
    case True
    with Cons.prems obtain c where c: "created_to_ts L (created r) = Inr c"
      by (auto simp: sweep_readable_def split: sum.splits)
    from True have sel: "select_finite (r # d)
        = (container_name r, created r, ttl r) # select_finite d"
      by (simp add: select_finite_def)
    from True c have "expired L now r \<longleftrightarrow> c + ttl r \<le> now"
      by (simp add: expired_def)
    with sel c ih show ?thesis by simp
  qed
qed

text \<open>
  When the sweep can read the creation time of every finite session, it completes: it
  makes one stop attempt per expired session, in the order of the store, whatever the
  runtime answers, and it removes every row that carries the container name of an expired
  session.
\<close>

lemma sweep_removes_expired:
  assumes "sweep_readable L d"
  shows "\<exists>D' tr. cleanup_old_containers L now d D =
            Inr (filter (\<lambda>r. container_name r
                    \<notin> set (map container_name (filter (expired L now) d))) d, D', tr)
          \<and> stop_attempts tr = map container_name (filter (expired L now) d)"
proof -
  let ?names = "map container_name (filter (expired L now) d)"
  obtain d' D' tr where run: "stop_and_delete ?names d D [DbSelect] = (d', D', tr)"
    by (cases "stop_and_delete ?names d D [DbSelect]")
  from run have "d' = fst (stop_and_delete ?names d D [DbSelect])" by simp
  then have store: "d' = filter (\<lambda>r. container_name r \<notin> set ?names) d"
    by (simp only: stop_and_delete_store)
  from run have "tr = snd (snd (stop_and_delete ?names d D [DbSelect]))" by simp
  then have attempts: "stop_attempts tr = ?names"
    by (simp only: stop_and_delete_attempts) simp
  have "cleanup_old_containers L now d D = Inr (d', D', tr)"
    by (simp add: cleanup_old_containers_def expired_names_readable [OF assms] run)
  with store attempts show ?thesis by blast
qed

text \<open>
  A session without expiry stays in the store, and no stop is attempted on its container,
  when no expired session carries its container name.
\<close>

lemma sweep_keeps_infinite:
  assumes "sweep_readable L d" and "r \<in> set d" and "ttl r = 0"
    and "\<forall>x \<in> set d. expired L now x \<longrightarrow> container_name x \<noteq> container_name r"
  shows "\<exists>d' D' tr. cleanup_old_containers L now d D = Inr (d', D', tr)
           \<and> r \<in> set d' \<and> container_name r \<notin> set (stop_attempts tr)"
proof -
  from sweep_removes_expired [OF assms(1), of now D]
  obtain D' tr where run: "cleanup_old_containers L now d D =
      Inr (filter (\<lambda>r. container_name r
              \<notin> set (map container_name (filter (expired L now) d))) d, D', tr)"
    and attempts: "stop_attempts tr = map container_name (filter (expired L now) d)"
    by blast
  from assms(4) have free: "container_name r \<notin> set (map container_name (filter (expired L now) d))"
    by auto
  with assms(2) have "r \<in> set (filter (\<lambda>r. container_name r
      \<notin> set (map container_name (filter (expired L now) d))) d)"
    by simp
  with run attempts free show ?thesis by auto
qed

text \<open>
  Claim C3 says that a sweep attempts one stop for, and deletes the record of, every
  finite session with \<open>created_at + ttl \<le> now\<close>. The first loop of
  \<open>cleanup_old_containers\<close> converts the creation time of every finite session before
  anything is stopped or deleted, and it catches \<open>ValueError\<close> only. With one finite
  session whose creation time is stored as the integer epoch 1704067200, the call of
  \<open>replace\<close> raises \<open>AttributeError\<close> and the sweep ends there: neither that session
  nor the expired session next to it, stored as ISO text, is stopped or deleted. With the
  same instant stored as ISO text in both rows, the sweep stops and deletes both, also
  though the first stop fails.
\<close>

theorem sweep_aborts_on_integer_created:
  "cleanup_old_containers demo_lib 1704074400
     [mk_row ''alice'' ''ws-1'' (SText ''2024-01-01T00:00:00'') 3600,
      mk_row ''bob'' ''ws-2'' (SInt 1704067200) 3600]
     (demo_docker [''ws-1'', ''ws-2''] [''ws-1''])
   = Inl AttributeError
   \<and> cleanup_old_containers demo_lib 1704074400
     [mk_row ''alice'' ''ws-1'' (SText ''2024-01-01T00:00:00'') 3600,
      mk_row ''bob'' ''ws-2'' (SText ''2024-01-01T00:00:00'') 3600]
     (demo_docker [''ws-1'', ''ws-2''] [''ws-1''])
   = Inr ([], demo_docker [''ws-1''] [''ws-1''],
          [DbSelect, ContainerGet ''ws-1'', ContainerStop ''ws-1'', DbDelete,
           ContainerGet ''ws-2'', ContainerStop ''ws-2'', DbDelete])"
  by (simp add: cleanup_old_containers_def select_finite_def mk_row_def created_to_ts_def
      demo_lib_def replace_Z_def try_stop_def demo_docker_def delete_by_name_def)


subsection \<open>The two forms of the creation time\<close>

text \<open>
  Claim C9 says that the sweep, the extension and the listing each accept the creation
  time as ISO-8601 text or as a raw integer epoch, with the same result for the same
  instant. \<open>api_list\<close> does: its bare \<open>except\<close> leads both forms to the same entry.
  \<open>cleanup_old_containers\<close> and \<open>extend_session\<close> call \<open>replace\<close> on the stored
  value and catch \<open>ValueError\<close> only: on the integer 1704067200 they raise
  \<open>AttributeError\<close>, where on the ISO text of that instant the sweep deletes the
  session and the extension stores the new lease.
\<close>

theorem integer_created_not_accepted:
  "fst (api_list demo_lib demo_env 1704069000000000
          (mk_request GET (Some ''alice'') None Absent None)
          [mk_row ''alice'' ''ws-1'' (SInt 1704067200) 3600])
   = fst (api_list demo_lib demo_env 1704069000000000
          (mk_request GET (Some ''alice'') None Absent None)
          [mk_row ''alice'' ''ws-1'' (SText ''2024-01-01T00:00:00'') 3600])
   \<and> fst (api_list demo_lib demo_env 1704069000000000
          (mk_request GET (Some ''alice'') None Absent None)
          [mk_row ''alice'' ''ws-1'' (SInt 1704067200) 3600])
   = Listed [\<lparr>e_name = ''ws-1'', e_image = ''gitea.domain.local:3002/brave:latest'',
              e_password = ''pw'', e_time_left = Some (0, 30), e_infinite = False,
              e_uptime = (0, 30), e_url = ''https://ws-1.workspaces.domain.local'',
              e_expires_at = Some (Naive 1704070800000000)\<rparr>]
   \<and> cleanup_old_containers demo_lib 1704074400
        [mk_row ''alice'' ''ws-1'' (SInt 1704067200) 3600] (demo_docker [''ws-1''] [])
      = Inl AttributeError
   \<and> cleanup_old_containers demo_lib 1704074400
        [mk_row ''alice'' ''ws-1'' (SText ''2024-01-01T00:00:00'') 3600] (demo_docker [''ws-1''] [])
      = Inr ([], demo_docker [] [],
             [DbSelect, ContainerGet ''ws-1'', ContainerStop ''ws-1'', DbDelete])
   \<and> extend_session demo_lib 1704069000
        (mk_request GET (Some ''alice'') None Absent None) ''ws-1''
        [mk_row ''alice'' ''ws-1'' (SInt 1704067200) 3600]
      = (Raised AttributeError, [mk_row ''alice'' ''ws-1'' (SInt 1704067200) 3600], [DbSelect])
   \<and> extend_session demo_lib 1704069000
        (mk_request GET (Some ''alice'') None Absent None) ''ws-1''
        [mk_row ''alice'' ''ws-1'' (SText ''2024-01-01T00:00:00'') 3600]
      = (Extended 1800 7200 9000,
         [mk_row ''alice'' ''ws-1'' (SText ''2024-01-01T00:00:00'') 9000],
         [DbSelect, DbUpdate])"
proof -
  let ?req = "mk_request GET (Some ''alice'') None Absent None"
  have uid: "get_user_id ?req = ''alice''"
    by (simp add: get_user_id_def py_or_def mk_request_def)
  have list_int: "fst (api_list demo_lib demo_env 1704069000000000 ?req
          [mk_row ''alice'' ''ws-1'' (SInt 1704067200) 3600])
      = Listed [\<lparr>e_name = ''ws-1'', e_image = ''gitea.domain.local:3002/brave:latest'',
              e_password = ''pw'', e_time_left = Some (0, 30), e_infinite = False,
              e_uptime = (0, 30), e_url = ''https://ws-1.workspaces.domain.local'',
              e_expires_at = Some (Naive 1704070800000000)\<rparr>]"
    by (simp add: api_list_def uid not_authorized_def mk_row_def list_entry_def created_to_dt_def
        demo_lib_def demo_env_def hours_minutes_def timedelta_ok_def datetime_ok_def Let_def)
  have list_iso: "fst (api_list demo_lib demo_env 1704069000000000 ?req
          [mk_row ''alice'' ''ws-1'' (SText ''2024-01-01T00:00:00'') 3600])
      = Listed [\<lparr>e_name = ''ws-1'', e_image = ''gitea.domain.local:3002/brave:latest'',
              e_password = ''pw'', e_time_left = Some (0, 30), e_infinite = False,
              e_uptime = (0, 30), e_url = ''https://ws-1.workspaces.domain.local'',
              e_expires_at = Some (Naive 1704070800000000)\<rparr>]"
    by (simp add: api_list_def uid not_authorized_def mk_row_def list_entry_def created_to_dt_def
        demo_lib_def demo_env_def hours_minutes_def timedelta_ok_def datetime_ok_def Let_def)
  have sweep_int: "cleanup_old_containers demo_lib 1704074400
        [mk_row ''alice'' ''ws-1'' (SInt 1704067200) 3600] (demo_docker [''ws-1''] [])
      = Inl AttributeError"
    by (simp add: cleanup_old_containers_def select_finite_def mk_row_def created_to_ts_def)
  have sweep_iso: "cleanup_old_containers demo_lib 1704074400
        [mk_row ''alice'' ''ws-1'' (SText ''2024-01-01T00:00:00'') 3600] (demo_docker [''ws-1''] [])
      = Inr ([], demo_docker [] [],
             [DbSelect, ContainerGet ''ws-1'', ContainerStop ''ws-1'', DbDelete])"
    by (simp add: cleanup_old_containers_def select_finite_def mk_row_def created_to_ts_def
        demo_lib_def replace_Z_def try_stop_def demo_docker_def delete_by_name_def)
  have extend_int: "extend_session demo_lib 1704069000 ?req ''ws-1''
        [mk_row ''alice'' ''ws-1'' (SInt 1704067200) 3600]
      = (Raised AttributeError, [mk_row ''alice'' ''ws-1'' (SInt 1704067200) 3600], [DbSelect])"
    by (simp add: extend_session_def get_user_id_def py_or_def mk_request_def where_key_def
        mk_row_def created_to_ts_def)
  have extend_iso: "extend_session demo_lib 1704069000 ?req ''ws-1''
        [mk_row ''alice'' ''ws-1'' (SText ''2024-01-01T00:00:00'') 3600]
      = (Extended 1800 7200 9000,
         [mk_row ''alice'' ''ws-1'' (SText ''2024-01-01T00:00:00'') 9000],
         [DbSelect, DbUpdate])"
    by (simp add: extend_session_def get_user_id_def py_or_def mk_request_def where_key_def
        mk_row_def created_to_ts_def demo_lib_def replace_Z_def sqlite_int_def update_ttl_def)
  from list_int list_iso sweep_int sweep_iso extend_int extend_iso show ?thesis
    by (simp only: simp_thms)
qed

end
